theory Spec2Isabelle
  imports Complex_Main "HOL-Library.Multiset"
begin

section \<open>Metric values\<close>

text \<open>
  The program (\<^verbatim>\<open>prerender_stock_details.py\<close>) computes with Python floats. A float is
  modelled as its exact value: a finite float is the rational number it denotes, and
  not-a-number is a value of its own, because the source tests for it explicitly
  (\<^verbatim>\<open>math.isnan\<close>). Rounding of float arithmetic and the two infinities are not modelled.
  A metric value of the program is \<^verbatim>\<open>float | None\<close>, here \<open>pyfloat option\<close>.
\<close>

datatype pyfloat = Num rat | NaN

text \<open>
  The spec's data model counts not-a-number as absence of a value; \<open>absent\<close> is that
  notion: \<^verbatim>\<open>None\<close> or NaN.
\<close>

fun absent :: "pyfloat option \<Rightarrow> bool" where
  "absent None = True"
| "absent (Some NaN) = True"
| "absent (Some (Num x)) = False"

section \<open>Configuration tables\<close>

definition HIGHER_IS_BETTER :: "string set" where
  "HIGHER_IS_BETTER = {
     ''tang_equity_over_tot_liab'',
     ''capital_intensity_reverse'',
     ''cagr_tangible_book_per_share'',
     ''cagr_cash_and_equiv'',
     ''roe_tangible_equity'',
     ''roic_over_wacc'',
     ''rule_of_40'',
     ''cash_conversion_ratio'',
     ''earnings_yield'',
     ''fcf_yield'',
     ''avg_5years_eps_growth'',
     ''avg_5years_revenue_growth'',
     ''revenue_growth_acceleration'',
     ''expected_growth_market_cap_10Y'',
     ''avg_5years_roe_growth'',
     ''interest_coverage_ratio'',
     ''current_ratio''}"

definition LOWER_IS_BETTER :: "string set" where
  "LOWER_IS_BETTER = {
     ''price_to_earnings'',
     ''peg'',
     ''price_to_tangible_book'',
     ''final_earnings_for_10y_growth_10perc'',
     ''final_earnings_for_10y_growth_15perc'',
     ''implied_perpetual_growth_curr_market_cap'',
     ''leverage_ratio'',
     ''goodwill_to_assets'',
     ''relative_PE_vs_history'',
     ''cagr_shares_diluted'',
     ''negative_eps_count_5y''}"

definition MEDIAN_MARGIN_OF_SAFETY :: rat where
  "MEDIAN_MARGIN_OF_SAFETY = 15 / 100"

definition DATA_FIELDS :: "string list" where
  "DATA_FIELDS = [
     ''tang_equity_over_tot_liab'',
     ''capital_intensity_reverse'',
     ''cagr_tangible_book_per_share'',
     ''cagr_cash_and_equiv'',
     ''goodwill_to_assets'',
     ''leverage_ratio'',
     ''interest_coverage_ratio'',
     ''roe_tangible_equity'',
     ''roic_over_wacc'',
     ''rule_of_40'',
     ''cash_conversion_ratio'',
     ''earnings_yield'',
     ''price_to_earnings'',
     ''fcf_yield'',
     ''peg'',
     ''price_to_tangible_book'',
     ''relative_PE_vs_history'',
     ''avg_5years_eps_growth'',
     ''avg_5years_revenue_growth'',
     ''revenue_growth_acceleration'',
     ''cagr_shares_diluted'',
     ''expected_growth_market_cap_10Y'',
     ''final_earnings_for_10y_growth_10perc'',
     ''final_earnings_for_10y_growth_15perc'',
     ''avg_5years_roe_growth'',
     ''implied_perpetual_growth_curr_market_cap'',
     ''current_ratio'',
     ''negative_eps_count_5y'',
     ''eps_growth_5y_total'',
     ''pe_times_pb'']"

section \<open>Indicators\<close>

record Indicator =
  icon :: string
  css_class :: string

text \<open>
  The three glyphs of the source are the code points U+25B2, U+25BC and U+25AC; a
  \<open>string\<close> holds bytes, so each is written as its UTF-8 encoding.
\<close>

definition icon_up :: string where
  "icon_up = [CHR 0xE2, CHR 0x96, CHR 0xB2]"

definition icon_down :: string where
  "icon_down = [CHR 0xE2, CHR 0x96, CHR 0xBC]"

definition icon_bar :: string where
  "icon_bar = [CHR 0xE2, CHR 0x96, CHR 0xAC]"

definition better :: Indicator where
  "better = \<lparr>icon = icon_up, css_class = ''better''\<rparr>"

definition worse :: Indicator where
  "worse = \<lparr>icon = icon_down, css_class = ''worse''\<rparr>"

definition equal_ind :: Indicator where
  "equal_ind = \<lparr>icon = icon_bar, css_class = ''equal''\<rparr>"

subsection \<open>Threshold rules\<close>

text \<open>
  \<^verbatim>\<open>threshold_indicator\<close> holds four local rule functions and a dictionary from field
  id to rule; it returns \<^verbatim>\<open>rules.get(field_id)\<close>. Each rule returns \<^verbatim>\<open>None\<close> for a value
  that is \<^verbatim>\<open>None\<close> or NaN.
\<close>

fun rule_current_ratio :: "pyfloat option \<Rightarrow> Indicator option" where
  "rule_current_ratio None = None"
| "rule_current_ratio (Some NaN) = None"
| "rule_current_ratio (Some (Num v)) = Some (if v \<ge> 3 / 2 then better else worse)"

fun rule_negative_eps :: "pyfloat option \<Rightarrow> Indicator option" where
  "rule_negative_eps None = None"
| "rule_negative_eps (Some NaN) = None"
| "rule_negative_eps (Some (Num v)) = Some (if v = 0 then better else worse)"

fun rule_eps_growth :: "pyfloat option \<Rightarrow> Indicator option" where
  "rule_eps_growth None = None"
| "rule_eps_growth (Some NaN) = None"
| "rule_eps_growth (Some (Num v)) = Some (if v > 1 then better else worse)"

fun rule_pe_times_pb :: "pyfloat option \<Rightarrow> Indicator option" where
  "rule_pe_times_pb None = None"
| "rule_pe_times_pb (Some NaN) = None"
| "rule_pe_times_pb (Some (Num v)) = Some (if v < 30 then better else worse)"

definition threshold_indicator ::
    "string \<Rightarrow> (pyfloat option \<Rightarrow> Indicator option) option" where
  "threshold_indicator field_id =
     map_of [(''current_ratio'', rule_current_ratio),
             (''negative_eps_count_5y'', rule_negative_eps),
             (''eps_growth_5y_total'', rule_eps_growth),
             (''pe_times_pb'', rule_pe_times_pb)] field_id"

subsection \<open>Comparison against the peer median\<close>

text \<open>
  \<open>median_comparison\<close> is the part of \<^verbatim>\<open>get_comparison_indicator\<close> after its guards
  (from \<^verbatim>\<open>eps = 1e-12\<close> on): both numbers are known to be present and not NaN. Each
  chain of tests is kept in the order of the source, the first test that holds decides.
\<close>

definition median_comparison :: "rat \<Rightarrow> rat \<Rightarrow> string \<Rightarrow> Indicator" where
  "median_comparison v median_value field_id =
     (let eps = 1 / 10 ^ 12 in
      if \<bar>median_value\<bar> < eps then
        (if field_id \<in> HIGHER_IS_BETTER then
           (if v > median_value then better
            else if v < median_value then worse
            else equal_ind)
         else if field_id \<in> LOWER_IS_BETTER then
           (if v < median_value then better
            else if v > median_value then worse
            else equal_ind)
         else equal_ind)
      else
        (let upper = median_value * (1 + MEDIAN_MARGIN_OF_SAFETY);
             lower = median_value * (1 - MEDIAN_MARGIN_OF_SAFETY) in
         if field_id \<in> HIGHER_IS_BETTER then
           (if v \<ge> upper then better
            else if v \<le> lower then worse
            else equal_ind)
         else if field_id \<in> LOWER_IS_BETTER then
           (if v \<le> lower then better
            else if v \<ge> upper then worse
            else equal_ind)
         else equal_ind))"

definition get_comparison_indicator ::
    "pyfloat option \<Rightarrow> pyfloat option \<Rightarrow> string \<Rightarrow> Indicator" where
  "get_comparison_indicator value median_value field_id =
     (case threshold_indicator field_id of
        Some rule \<Rightarrow> (case rule value of Some res \<Rightarrow> res | None \<Rightarrow> equal_ind)
      | None \<Rightarrow>
          (case value of
             None \<Rightarrow> equal_ind
           | Some x \<Rightarrow>
               (case median_value of
                  None \<Rightarrow> equal_ind
                | Some y \<Rightarrow>
                    (case x of
                       NaN \<Rightarrow> equal_ind
                     | Num v \<Rightarrow>
                         (case y of
                            NaN \<Rightarrow> equal_ind
                          | Num m \<Rightarrow> median_comparison v m field_id)))))"

section \<open>Peer statistics\<close>

text \<open>
  \<^verbatim>\<open>calculate_median\<close> keeps the entries that are numbers and not NaN, sorts them
  (\<^verbatim>\<open>clean.sort()\<close>) and reads the middle. The index \<^verbatim>\<open>mid - 1\<close> is read only when the
  length is even and not zero, so it is never negative.
\<close>

fun clean_values :: "pyfloat option list \<Rightarrow> rat list" where
  "clean_values [] = []"
| "clean_values (None # vs) = clean_values vs"
| "clean_values (Some NaN # vs) = clean_values vs"
| "clean_values (Some (Num x) # vs) = x # clean_values vs"

definition calculate_median :: "pyfloat option list \<Rightarrow> pyfloat option" where
  "calculate_median values =
     (let clean = sort (clean_values values) in
      if clean = [] then None
      else
        (let mid = length clean div 2 in
         if length clean mod 2 = 0
         then Some (Num ((clean ! (mid - 1) + clean ! mid) / 2))
         else Some (Num (clean ! mid))))"

section \<open>Section scores\<close>

text \<open>
  A record and the peer statistics are dictionaries from field id to \<^verbatim>\<open>float | None\<close>;
  \<^verbatim>\<open>d.get(k)\<close> is \<^verbatim>\<open>None\<close> both for a missing key and for a stored \<^verbatim>\<open>None\<close>.
\<close>

type_synonym metrics = "string \<rightharpoonup> pyfloat option"

definition dict_get :: "metrics \<Rightarrow> string \<Rightarrow> pyfloat option" where
  "dict_get d k = (case d k of None \<Rightarrow> None | Some v \<Rightarrow> v)"

definition compute_medians :: "metrics list \<Rightarrow> metrics" where
  "compute_medians rows =
     map_of (map (\<lambda>field_id. (field_id, calculate_median (map (\<lambda>r. dict_get r field_id) rows)))
               DATA_FIELDS)"

definition SECTION_FIELDS :: "(string \<times> string list) list" where
  "SECTION_FIELDS = [
     (''balance-sheet-strength'',
        [''tang_equity_over_tot_liab'', ''capital_intensity_reverse'',
         ''cagr_tangible_book_per_share'', ''cagr_cash_and_equiv'', ''goodwill_to_assets'']),
     (''debt-service'', [''leverage_ratio'', ''interest_coverage_ratio'']),
     (''profitability'',
        [''roe_tangible_equity'', ''roic_over_wacc'', ''rule_of_40'',
         ''cash_conversion_ratio'', ''avg_5years_roe_growth'']),
     (''valuation'',
        [''earnings_yield'', ''price_to_earnings'', ''fcf_yield'', ''peg'',
         ''price_to_tangible_book'', ''relative_PE_vs_history'']),
     (''growth'',
        [''avg_5years_eps_growth'', ''avg_5years_revenue_growth'',
         ''revenue_growth_acceleration'', ''cagr_shares_diluted'',
         ''expected_growth_market_cap_10Y'', ''final_earnings_for_10y_growth_10perc'',
         ''final_earnings_for_10y_growth_15perc'',
         ''implied_perpetual_growth_curr_market_cap'']),
     (''graham-value-investor-indicator'',
        [''current_ratio'', ''negative_eps_count_5y'', ''eps_growth_5y_total'',
         ''pe_times_pb''])]"

text \<open>
  The loop of \<^verbatim>\<open>calculate_section_score\<close>, with its two counters as arguments. Each
  \<^verbatim>\<open>continue\<close> of the source is a recursive call with the counters as they are. The
  only test on the value and on the median is \<^verbatim>\<open>is None\<close>. The counters \<^verbatim>\<open>above\<close> and
  \<^verbatim>\<open>total\<close> of the source are \<open>n_above\<close> and \<open>n_total\<close> here.
\<close>

fun section_score_loop ::
    "string list \<Rightarrow> metrics \<Rightarrow> metrics \<Rightarrow> int \<Rightarrow> int \<Rightarrow> int \<times> int" where
  "section_score_loop [] stock_data medians n_above n_total = (n_above, n_total)"
| "section_score_loop (field_id # rest) stock_data medians n_above n_total =
     (let value = dict_get stock_data field_id;
          median_value = dict_get medians field_id in
      case threshold_indicator field_id of
        Some rule \<Rightarrow>
          (if value = None then section_score_loop rest stock_data medians n_above n_total
           else
             (let ind = get_comparison_indicator value median_value field_id in
              if css_class ind = ''better''
              then section_score_loop rest stock_data medians (n_above + 1) (n_total + 1)
              else section_score_loop rest stock_data medians n_above (n_total + 1)))
      | None \<Rightarrow>
          (if value = None \<or> median_value = None
           then section_score_loop rest stock_data medians n_above n_total
           else
             (let ind = get_comparison_indicator value median_value field_id in
              if css_class ind = ''better''
              then section_score_loop rest stock_data medians (n_above + 1) (n_total + 1)
              else section_score_loop rest stock_data medians n_above (n_total + 1))))"

definition calculate_section_score ::
    "string list \<Rightarrow> metrics \<Rightarrow> metrics \<Rightarrow> int \<times> int" where
  "calculate_section_score section_field_ids stock_data medians =
     section_score_loop section_field_ids stock_data medians 0 0"

text \<open>
  \<^verbatim>\<open>above / total\<close> is Python's true division of two integers; it is reached only with
  \<^verbatim>\<open>total\<close> not zero.
\<close>

definition get_score_chip_class :: "int \<Rightarrow> int \<Rightarrow> string" where
  "get_score_chip_class n_above n_total =
     (if n_total = 0 then ''mixed''
      else
        (let ratio = (of_int n_above / of_int n_total :: rat) in
         if ratio \<ge> 7 / 10 then ''good''
         else if ratio \<ge> 4 / 10 then ''mixed''
         else ''poor''))"

text \<open>The tier label chosen in \<^verbatim>\<open>render_html\<close> for a section's score label element.\<close>

definition score_label_text :: "string \<Rightarrow> string" where
  "score_label_text chip_class =
     (if chip_class = ''good'' then ''Strong''
      else if chip_class = ''mixed'' then ''Mixed''
      else if chip_class = ''poor'' then ''Weak''
      else ''Neutral'')"

section \<open>Value formatting\<close>

text \<open>
  Python's format specifications \<^verbatim>\<open>.2f\<close>, \<^verbatim>\<open>.0f\<close> and \<^verbatim>\<open>,.2f\<close> print the decimal expansion
  of the float's exact value, rounded to the given number of decimals with ties going to
  the even digit; the minus sign is printed for every negative value, also one that
  rounds to zero; \<^verbatim>\<open>,\<close> groups the integer digits by three; precision 0 prints no
  decimal point. \<open>format_fixed\<close> is that function on the exact value.
\<close>

definition round_half_even :: "rat \<Rightarrow> int" where
  "round_half_even x =
     (let f = \<lfloor>x\<rfloor>; r = x - of_int f in
      if r < 1 / 2 then f
      else if r > 1 / 2 then f + 1
      else if even f then f else f + 1)"

definition digit_char :: "nat \<Rightarrow> char" where
  "digit_char d = ''0123456789'' ! (d mod 10)"

fun dec_digits :: "nat \<Rightarrow> string" where
  "dec_digits n =
     (if n < 10 then [digit_char n] else dec_digits (n div 10) @ [digit_char (n mod 10)])"

declare dec_digits.simps [simp del]

function group_thousands :: "string \<Rightarrow> string" where
  "group_thousands ds =
     (if length ds \<le> 3 then ds
      else group_thousands (take (length ds - 3) ds) @ '','' @ drop (length ds - 3) ds)"
  by pat_completeness auto
termination
  by (relation "measure length") auto

declare group_thousands.simps [simp del]

definition format_fixed :: "nat \<Rightarrow> bool \<Rightarrow> rat \<Rightarrow> string" where
  "format_fixed prec grouped x =
     (let n = nat (round_half_even (\<bar>x\<bar> * 10 ^ prec));
          whole = dec_digits (n div 10 ^ prec);
          frac = dec_digits (n mod 10 ^ prec) in
      (if x < 0 then ''-'' else []) @
      (if grouped then group_thousands whole else whole) @
      (if prec = 0 then [] else ''.'' @ replicate (prec - length frac) CHR ''0'' @ frac))"





section \<open>Cell coercion\<close>

text \<open>
  A cell of the worksheet is any Python object: \<^verbatim>\<open>None\<close>, a \<^verbatim>\<open>bool\<close> (an \<^verbatim>\<open>int\<close> for
  \<^verbatim>\<open>isinstance\<close>), an \<^verbatim>\<open>int\<close>, a \<^verbatim>\<open>float\<close>, a \<^verbatim>\<open>str\<close>, or something else (a date, say).
  Strings are modelled up to code point 255.
\<close>

datatype cell = CNone | CBool bool | CInt int | CFloat pyfloat | CStr string | COther

datatype error = OverflowError

text \<open>
  \<^verbatim>\<open>float(i)\<close> of an integer raises \<^verbatim>\<open>OverflowError\<close> when \<^verbatim>\<open>i\<close> rounds to a magnitude
  beyond the largest double, that is from \<open>2 ^ 1024 - 2 ^ 970\<close> on.
\<close>

definition float_of_int :: "int \<Rightarrow> error + pyfloat" where
  "float_of_int i =
     (if \<bar>i\<bar> \<ge> 2 ^ 1024 - 2 ^ 970 then Inl OverflowError else Inr (Num (of_int i)))"

text \<open>\<^verbatim>\<open>str.strip()\<close> and \<^verbatim>\<open>str.lower()\<close> on code points below 256.\<close>

definition isspace :: "char \<Rightarrow> bool" where
  "isspace c = ((of_char c :: nat) \<in> {9, 10, 11, 12, 13, 28, 29, 30, 31, 32, 133, 160})"

definition strip :: "string \<Rightarrow> string" where
  "strip s = rev (dropWhile isspace (rev (dropWhile isspace s)))"

definition lower_char :: "char \<Rightarrow> char" where
  "lower_char c =
     (let n = (of_char c :: nat) in
      if (65 \<le> n \<and> n \<le> 90) \<or> (192 \<le> n \<and> n \<le> 222 \<and> n \<noteq> 215)
      then char_of (n + 32) else c)"

definition lower :: "string \<Rightarrow> string" where
  "lower s = map lower_char s"

text \<open>
  \<^verbatim>\<open>_to_float\<close>. Python's built-in \<^verbatim>\<open>float\<close> on a string is the parameter
  \<open>str_to_float\<close>: \<open>None\<close> where the built-in raises \<^verbatim>\<open>ValueError\<close>, which the source
  catches and turns into \<^verbatim>\<open>None\<close>.
\<close>

definition to_float :: "(string \<Rightarrow> pyfloat option) \<Rightarrow> cell \<Rightarrow> error + pyfloat option" where
  "to_float str_to_float value =
     (case value of
        CNone \<Rightarrow> Inr None
      | CBool b \<Rightarrow> Inr (Some (Num (if b then 1 else 0)))
      | CInt i \<Rightarrow> (case float_of_int i of Inl e \<Rightarrow> Inl e | Inr x \<Rightarrow> Inr (Some x))
      | CFloat x \<Rightarrow> (case x of NaN \<Rightarrow> Inr None | Num r \<Rightarrow> Inr (Some (Num r)))
      | CStr str \<Rightarrow>
          (let s = strip str in
           if s = [] \<or> lower s \<in> {''na'', ''n/a'', ''nan'', ''null''} then Inr None
           else Inr (str_to_float s))
      | COther \<Rightarrow> Inr None)"

section \<open>Template documents\<close>











section \<open>Properties of the comparison engine\<close>

lemma css_class_simps:
  "css_class better = ''better''" "css_class worse = ''worse''"
  "css_class equal_ind = ''equal''"
  by (simp_all add: better_def worse_def equal_ind_def)



lemma threshold_indicator_simps:
  "threshold_indicator ''current_ratio'' = Some rule_current_ratio"
  "threshold_indicator ''negative_eps_count_5y'' = Some rule_negative_eps"
  "threshold_indicator ''eps_growth_5y_total'' = Some rule_eps_growth"
  "threshold_indicator ''pe_times_pb'' = Some rule_pe_times_pb"
  by (simp_all add: threshold_indicator_def)

lemma threshold_field_iff:
  "threshold_indicator f \<noteq> None \<longleftrightarrow>
   f \<in> {''current_ratio'', ''negative_eps_count_5y'', ''eps_growth_5y_total'', ''pe_times_pb''}"
  by (simp add: threshold_indicator_def)

lemma threshold_field_comparison:
  "threshold_indicator f = Some rule \<Longrightarrow>
   get_comparison_indicator value m f = (case rule value of Some res \<Rightarrow> res | None \<Rightarrow> equal_ind)"
  by (simp add: get_comparison_indicator_def)



text \<open>
  With a negative median the band \<open>M * (1 + 0.15)\<close> lies below \<open>M * (1 - 0.15)\<close>, both
  tests can hold, and the first one decides: with median \<open>-10\<close> the value \<open>-9\<close> is at or
  below the lower band \<open>-8.5\<close> and still better for a higher-is-better field. With a
  positive median the two tests exclude each other.
\<close>

lemma negative_median_first_test_wins:
  "median_comparison (- 9) (- 10) ''earnings_yield'' = better"
  by (simp add: median_comparison_def MEDIAN_MARGIN_OF_SAFETY_def HIGHER_IS_BETTER_def)

lemma positive_median_tests_exclusive:
  "0 < M \<Longrightarrow> \<not> (v \<ge> M * (1 + MEDIAN_MARGIN_OF_SAFETY) \<and> v \<le> M * (1 - MEDIAN_MARGIN_OF_SAFETY))"
  by (simp add: MEDIAN_MARGIN_OF_SAFETY_def field_simps)

text \<open>
  Claim C2. For each of the four fields with a threshold rule the indicator does not
  depend on the peer median; a value that is \<^verbatim>\<open>None\<close> or NaN gives equal; a number \<open>v\<close>
  gives better exactly when \<open>v \<ge> 1.5\<close> (\<^verbatim>\<open>current_ratio\<close>), \<open>v = 0\<close>
  (\<^verbatim>\<open>negative_eps_count_5y\<close>), \<open>v > 1\<close> (\<^verbatim>\<open>eps_growth_5y_total\<close>), \<open>v < 30\<close>
  (\<^verbatim>\<open>pe_times_pb\<close>), and worse otherwise.
\<close>

theorem threshold_rules_ignore_median:
  assumes "f \<in> {''current_ratio'', ''negative_eps_count_5y'', ''eps_growth_5y_total'',
                 ''pe_times_pb''}"
  shows
    "get_comparison_indicator x ma f = get_comparison_indicator x mb f \<and>
     get_comparison_indicator None ma f = equal_ind \<and>
     get_comparison_indicator (Some NaN) ma f = equal_ind \<and>
     get_comparison_indicator (Some (Num v)) ma ''current_ratio'' =
       (if v \<ge> 3 / 2 then better else worse) \<and>
     get_comparison_indicator (Some (Num v)) ma ''negative_eps_count_5y'' =
       (if v = 0 then better else worse) \<and>
     get_comparison_indicator (Some (Num v)) ma ''eps_growth_5y_total'' =
       (if v > 1 then better else worse) \<and>
     get_comparison_indicator (Some (Num v)) ma ''pe_times_pb'' =
       (if v < 30 then better else worse)"
proof -
  obtain rule where r: "threshold_indicator f = Some rule"
    and n: "rule None = None" "rule (Some NaN) = None"
    using assms by (auto simp: threshold_indicator_simps)
  have "get_comparison_indicator x ma f = get_comparison_indicator x mb f"
    by (simp add: threshold_field_comparison [OF r])
  moreover have "get_comparison_indicator None ma f = equal_ind"
    by (simp add: threshold_field_comparison [OF r] n)
  moreover have "get_comparison_indicator (Some NaN) ma f = equal_ind"
    by (simp add: threshold_field_comparison [OF r] n)
  ultimately show ?thesis
    by (simp add: threshold_field_comparison [OF threshold_indicator_simps(1)]
        threshold_field_comparison [OF threshold_indicator_simps(2)]
        threshold_field_comparison [OF threshold_indicator_simps(3)]
        threshold_field_comparison [OF threshold_indicator_simps(4)])
qed

theorem threshold_rules_ignore_median_witness:
  "''current_ratio'' \<in> {''current_ratio'', ''negative_eps_count_5y'', ''eps_growth_5y_total'',
                 ''pe_times_pb''} \<and>
   get_comparison_indicator (Some (Num (3 / 2))) (Some (Num 100)) ''current_ratio'' =
     get_comparison_indicator (Some (Num (3 / 2))) None ''current_ratio'' \<and>
   get_comparison_indicator (Some (Num (3 / 2))) (Some (Num 100)) ''current_ratio'' = better \<and>
   get_comparison_indicator (Some (Num (149 / 100))) (Some (Num 100)) ''current_ratio'' = worse"
proof -
  have h: "''current_ratio'' \<in> {''current_ratio'', ''negative_eps_count_5y'',
      ''eps_growth_5y_total'', ''pe_times_pb''}" by simp
  note a = threshold_rules_ignore_median [OF h, where v = "3 / 2" and ma = "Some (Num 100)"
        and mb = None and x = "Some (Num (3 / 2))"]
  note b = threshold_rules_ignore_median [OF h, where v = "149 / 100" and ma = "Some (Num 100)"]
  have e: "get_comparison_indicator (Some (Num (3 / 2))) (Some (Num 100)) ''current_ratio'' =
      get_comparison_indicator (Some (Num (3 / 2))) None ''current_ratio''"
    using a by blast
  have "get_comparison_indicator (Some (Num (3 / 2))) (Some (Num 100)) ''current_ratio'' =
      (if (3 / 2 :: rat) \<ge> 3 / 2 then better else worse)"
    using a by blast
  then have c: "get_comparison_indicator (Some (Num (3 / 2))) (Some (Num 100)) ''current_ratio'' = better"
    by simp
  have "get_comparison_indicator (Some (Num (149 / 100))) (Some (Num 100)) ''current_ratio'' =
      (if (149 / 100 :: rat) \<ge> 3 / 2 then better else worse)"
    using b by blast
  then have d: "get_comparison_indicator (Some (Num (149 / 100))) (Some (Num 100)) ''current_ratio'' = worse"
    by simp
  show ?thesis
    using h e c d by (intro conjI)
qed



section \<open>Properties of the section scorer\<close>

text \<open>
  What \<^verbatim>\<open>calculate_section_score\<close> counts: \<^verbatim>\<open>total\<close> is the number of fields whose value
  is not \<^verbatim>\<open>None\<close> and, for a field without a threshold rule, whose median is not \<^verbatim>\<open>None\<close>
  either; \<^verbatim>\<open>above\<close> is the number of fields whose indicator is better (a field that is
  not counted never has a better indicator).
\<close>

lemma uncounted_not_better:
  assumes "dict_get sd f = None \<or> (threshold_indicator f = None \<and> dict_get md f = None)"
  shows "css_class (get_comparison_indicator (dict_get sd f) (dict_get md f) f) \<noteq> ''better''"
proof (cases "threshold_indicator f")
  case None
  with assms show ?thesis
    by (auto simp: get_comparison_indicator_def css_class_simps split: option.splits)
next
  case (Some rule)
  with assms have v: "dict_get sd f = None" by simp
  from Some
  have "f \<in> {''current_ratio'', ''negative_eps_count_5y'', ''eps_growth_5y_total'',
            ''pe_times_pb''}"
    using threshold_field_iff [of f] by simp
  then have "rule None = None"
    using Some by (auto simp: threshold_indicator_simps)
  then show ?thesis
    by (simp add: threshold_field_comparison [OF Some] v css_class_simps)
qed

lemma section_score_loop_counts:
  "section_score_loop fs sd md a t =
     (a + int (length (filter
            (\<lambda>f. css_class (get_comparison_indicator (dict_get sd f) (dict_get md f) f) =
                   ''better'') fs)),
      t + int (length (filter
            (\<lambda>f. dict_get sd f \<noteq> None \<and>
                 (threshold_indicator f = None \<longrightarrow> dict_get md f \<noteq> None)) fs)))"
proof (induction fs arbitrary: a t)
  case Nil
  show ?case by simp
next
  case (Cons f fs)
  show ?case
  proof (cases "dict_get sd f = None \<or> (threshold_indicator f = None \<and> dict_get md f = None)")
    case True
    note nb = uncounted_not_better [OF True]
    from True show ?thesis
      using nb by (auto simp: Cons.IH Let_def split: option.splits)
  next
    case False
    then show ?thesis
      by (auto simp: Cons.IH Let_def split: option.splits)
  qed
qed

lemma calculate_section_score_counts:
  "calculate_section_score fs sd md =
     (int (length (filter
        (\<lambda>f. css_class (get_comparison_indicator (dict_get sd f) (dict_get md f) f) =
               ''better'') fs)),
      int (length (filter
        (\<lambda>f. dict_get sd f \<noteq> None \<and>
             (threshold_indicator f = None \<longrightarrow> dict_get md f \<noteq> None)) fs)))"
  by (simp add: calculate_section_score_def section_score_loop_counts)

lemma score_tiers:
  "get_score_chip_class a 0 = ''mixed''"
  "t > 0 \<Longrightarrow> get_score_chip_class a t =
     (if 10 * a \<ge> 7 * t then ''good'' else if 10 * a \<ge> 4 * t then ''mixed'' else ''poor'')"
  "get_score_chip_class 7 10 = ''good''"
  "get_score_chip_class 4 10 = ''mixed''"
  "get_score_chip_class 3 10 = ''poor''"
proof -
  show "get_score_chip_class a 0 = ''mixed''" by (simp add: get_score_chip_class_def)
  show "get_score_chip_class 7 10 = ''good''" by (simp add: get_score_chip_class_def)
  show "get_score_chip_class 4 10 = ''mixed''" by (simp add: get_score_chip_class_def)
  show "get_score_chip_class 3 10 = ''poor''" by (simp add: get_score_chip_class_def)
  assume t: "t > 0"
  then have r: "\<And>n d :: int. d > 0 \<Longrightarrow>
      (of_int n / of_int d :: rat) \<le> of_int a / of_int t \<longleftrightarrow> n * t \<le> d * a"
    by (simp add: field_simps flip: of_int_mult)
  have "(7 / 10 :: rat) \<le> of_int a / of_int t \<longleftrightarrow> 7 * t \<le> 10 * a"
    using r [of 10 7] by simp
  moreover have "(4 / 10 :: rat) \<le> of_int a / of_int t \<longleftrightarrow> 4 * t \<le> 10 * a"
    using r [of 10 4] by simp
  ultimately show "get_score_chip_class a t =
     (if 10 * a \<ge> 7 * t then ''good'' else if 10 * a \<ge> 4 * t then ''mixed'' else ''poor'')"
    using t by (simp add: get_score_chip_class_def Let_def)
qed

text \<open>
  Claim C3. A field counts toward \<^verbatim>\<open>total\<close> only when its comparison can be resolved: its
  value must be present (and, for a band-based field, its median). The specification
  counts not-a-number as absent, and every other function of the program treats NaN as it
  treats \<^verbatim>\<open>None\<close>; \<^verbatim>\<open>calculate_section_score\<close> tests \<^verbatim>\<open>is None\<close> only. The loader lets NaN
  through for a cell holding the text \<^verbatim>\<open>-nan\<close>, which Python's \<^verbatim>\<open>float\<close> parses to NaN and
  which is not one of the sentinel strings. A NaN value is then counted in \<^verbatim>\<open>total\<close>,
  with the indicator equal, where a \<^verbatim>\<open>None\<close> value is not counted: a section holding only
  that field scores 0/1 and tier poor, instead of 0/0 and tier mixed.
\<close>

theorem section_score_counts_nan_value:
  "absent (Some NaN) \<and>
   to_float (\<lambda>s. if s = ''-nan'' then Some NaN else None) (CStr ''-nan'') = Inr (Some NaN) \<and>
   get_comparison_indicator (Some NaN) None ''current_ratio'' = equal_ind \<and>
   calculate_section_score [''current_ratio''] [''current_ratio'' \<mapsto> Some NaN] Map.empty = (0, 1) \<and>
   calculate_section_score [''current_ratio''] [''current_ratio'' \<mapsto> None] Map.empty = (0, 0) \<and>
   get_score_chip_class 0 1 = ''poor'' \<and> get_score_chip_class 0 0 = ''mixed'' \<and>
   calculate_section_score [''peg''] [''peg'' \<mapsto> Some NaN] [''peg'' \<mapsto> Some (Num 2)] = (0, 1)"
proof -
  have l: "to_float (\<lambda>s. if s = ''-nan'' then Some NaN else None) (CStr ''-nan'') = Inr (Some NaN)"
    by (simp add: to_float_def strip_def isspace_def lower_def lower_char_def)
  have r: "calculate_section_score [''current_ratio''] [''current_ratio'' \<mapsto> Some NaN] Map.empty = (0, 1)"
      "calculate_section_score [''current_ratio''] [''current_ratio'' \<mapsto> None] Map.empty = (0, 0)"
      "get_comparison_indicator (Some NaN) None ''current_ratio'' = equal_ind"
    by (simp_all add: calculate_section_score_def dict_get_def threshold_indicator_simps
        threshold_field_comparison [OF threshold_indicator_simps(1)] css_class_simps)
  have p: "calculate_section_score [''peg''] [''peg'' \<mapsto> Some NaN] [''peg'' \<mapsto> Some (Num 2)] = (0, 1)"
    by (simp add: calculate_section_score_def dict_get_def get_comparison_indicator_def
        threshold_indicator_def css_class_simps)
  have c: "get_score_chip_class 0 1 = ''poor''" "get_score_chip_class 0 0 = ''mixed''"
    by (simp_all add: get_score_chip_class_def)
  show ?thesis
    using l r p c by simp
qed

text \<open>
  Claim C10. \<^verbatim>\<open>get_score_chip_class\<close> returns one of \<^verbatim>\<open>good\<close>, \<^verbatim>\<open>mixed\<close>, \<^verbatim>\<open>poor\<close> for every
  pair of integers, in particular for every pair \<^verbatim>\<open>calculate_section_score\<close> returns; so
  the tier label is \<^verbatim>\<open>Strong\<close>, \<^verbatim>\<open>Mixed\<close> or \<^verbatim>\<open>Weak\<close>, and the label \<^verbatim>\<open>Neutral\<close> is never
  produced.
\<close>

theorem tier_label_never_neutral:
  "get_score_chip_class a t \<in> {''good'', ''mixed'', ''poor''} \<and>
   score_label_text (get_score_chip_class a t) \<in> {''Strong'', ''Mixed'', ''Weak''} \<and>
   score_label_text (get_score_chip_class a t) \<noteq> ''Neutral'' \<and>
   (case calculate_section_score fs sd md of
      (a', t') \<Rightarrow>
        get_score_chip_class a' t' \<in> {''good'', ''mixed'', ''poor''} \<and>
        score_label_text (get_score_chip_class a' t') \<in> {''Strong'', ''Mixed'', ''Weak''})"
proof -
  have c: "\<And>a t. get_score_chip_class a t \<in> {''good'', ''mixed'', ''poor''}"
    by (simp add: get_score_chip_class_def Let_def)
  have l: "\<And>c. c \<in> {''good'', ''mixed'', ''poor''} \<Longrightarrow>
      score_label_text c \<in> {''Strong'', ''Mixed'', ''Weak''} \<and> score_label_text c \<noteq> ''Neutral''"
    by (auto simp: score_label_text_def)
  show ?thesis
    using c l by (auto split: prod.splits)
qed

section \<open>Properties of the peer statistics\<close>



lemma median_indices_in_range:
  "s \<noteq> [] \<Longrightarrow> length s div 2 < length s \<and> (even (length s) \<longrightarrow> 1 \<le> length s div 2)"
  by (cases s) auto

lemma median_examples:
  "calculate_median [Some (Num 3), None, Some (Num 1), Some NaN, Some (Num 2)] = Some (Num 2)"
  "calculate_median [Some (Num 4), Some (Num 1), None, Some (Num 3), Some (Num 2)] = Some (Num (5 / 2))"
  "calculate_median [None, Some NaN] = None"
  by (simp_all add: calculate_median_def Let_def)

text \<open>
  \<^verbatim>\<open>compute_medians\<close> gives every field of \<^verbatim>\<open>DATA_FIELDS\<close> the median of its column over the
  rows.
\<close>

lemma map_of_tabulate:
  "map_of (map (\<lambda>k. (k, g k)) ks) f = (if f \<in> set ks then Some (g f) else None)"
  by (induction ks) auto

lemma compute_medians_get:
  "dict_get (compute_medians rows) f =
     (if f \<in> set DATA_FIELDS then calculate_median (map (\<lambda>r. dict_get r f) rows) else None)"
  by (simp add: compute_medians_def dict_get_def [of "map_of _"] map_of_tabulate)

section \<open>Properties of value formatting\<close>

text \<open>The two recursive digit functions, as rules that fire on concrete numbers.\<close>

lemma dec_digits_small: "n < 10 \<Longrightarrow> dec_digits n = [digit_char n]"
  by (simp add: dec_digits.simps)

lemma dec_digits_large:
  "10 \<le> n \<Longrightarrow> dec_digits n = dec_digits (n div 10) @ [digit_char (n mod 10)]"
  by (subst dec_digits.simps) simp

lemma group_small: "length ds \<le> 3 \<Longrightarrow> group_thousands ds = ds"
  by (simp add: group_thousands.simps)

lemma group_large:
  "3 < length ds \<Longrightarrow>
   group_thousands ds =
     group_thousands (take (length ds - 3) ds) @ '','' @ drop (length ds - 3) ds"
  by (subst group_thousands.simps) simp

lemma floor_rat_numeral_divide:
  "\<lfloor>(numeral a / numeral b :: rat)\<rfloor> = numeral a div numeral b"
  by (metis floor_divide_of_int_eq of_int_numeral)

lemmas fmt_eval = floor_rat_numeral_divide dec_digits_small dec_digits_large group_small
  group_large digit_char_def format_fixed_def round_half_even_def Let_def

text \<open>
  \<open>format_fixed\<close> on the inputs where Python prints \<^verbatim>\<open>1,234,567.12\<close>, \<^verbatim>\<open>2\<close>, \<^verbatim>\<open>4\<close>, \<^verbatim>\<open>-0.00\<close>
  and \<^verbatim>\<open>-0\<close>: ties go to the even digit, and the sign of a negative value is kept.
\<close>

lemma format_fixed_examples:
  "format_fixed 2 True (1234567 + 1 / 8) = ''1,234,567.12''"
  "format_fixed 0 False (5 / 2) = ''2''"
  "format_fixed 0 False (7 / 2) = ''4''"
  "format_fixed 2 False (- 1 / 1000) = ''-0.00''"
  "format_fixed 0 False (- 2 / 5) = ''-0''"
  by (simp_all add: fmt_eval)



section \<open>Properties of cell coercion\<close>




section \<open>Properties of the title and header step\<close>







end
